theory Spec2Isabelle
  imports Complex_Main
begin

section \<open>Data model\<close>

text \<open>
  Python floats are modelled as reals: the properties below are about comparisons and
  about the stop/target formulas, not about rounding. NaN and the infinities are outside
  the model. An index is a natural number (the engine only produces indices of
  \<open>range(max_lookback, len(df))\<close>); reading a column at an index that is not below its
  length raises \<open>IndexError\<close>, which is a value of the result type here.
\<close>

datatype error = IndexError | ValueError | TypeError | AttributeError | Exception string

text \<open>
  One row of the enriched DataFrame: the price columns read by the decision logic and the
  indicator columns added by \<open>calculate_indicators\<close>. All columns of a DataFrame have
  the same length, so the frame is a list of rows and a column is \<open>map field df\<close>.
\<close>

record row =
  high :: real
  low :: real
  close :: real
  volume :: real
  ema :: real
  macd :: real
  signal :: real
  bb_upper :: real
  bb_mid :: real
  bb_lower :: real
  bb_width :: real
  atr :: real
  vol_avg :: real

type_synonym dataframe = "row list"

text \<open>\<open>strategies/base.py\<close>: \<open>Signal\<close> and its derived properties.\<close>

record Signal =
  side :: string
  entry_price :: real
  stop_loss :: real
  take_profit :: real
  quantity :: "real option"

definition risk :: "Signal \<Rightarrow> real" where
  "risk s = (if side s = ''long'' then entry_price s - stop_loss s
             else stop_loss s - entry_price s)"

definition reward :: "Signal \<Rightarrow> real" where
  "reward s = (if side s = ''long'' then take_profit s - entry_price s
               else entry_price s - take_profit s)"

text \<open>\<open>strategies/base.py\<close>: \<open>StrategyConfig\<close>.\<close>

record StrategyConfig =
  ema_period :: int
  macd_fast :: int
  macd_slow :: int
  macd_signal :: int
  bb_period :: int
  bb_std :: real
  atr_period :: int
  atr_sl_mult :: real
  rr_ratio :: real
  qml_order :: int
  qml_recency :: int
  use_qml :: bool
  use_qml_extreme_sl :: bool
  use_vol_filter :: bool
  vol_filter_mult :: real
  squeeze_threshold :: real
  vol_period :: int

definition default_config :: StrategyConfig where
  "default_config = \<lparr> ema_period = 100, macd_fast = 12, macd_slow = 26, macd_signal = 9,
     bb_period = 20, bb_std = 2, atr_period = 14, atr_sl_mult = 3 / 2, rr_ratio = 2,
     qml_order = 3, qml_recency = 20, use_qml = False, use_qml_extreme_sl = False,
     use_vol_filter = False, vol_filter_mult = 4 / 5, squeeze_threshold = 1,
     vol_period = 20 \<rparr>"

text \<open>
  The mutable attributes \<open>_last_qml_bull\<close> and \<open>_last_qml_bear\<close> of
  \<open>MacdEmaBbStrategy\<close>, both \<open>None\<close> after \<open>__init__\<close>. Every method that may
  assign one of them returns the new state.
\<close>

record strategy_state =
  last_qml_bull :: "real option"
  last_qml_bear :: "real option"

definition init_strategy :: strategy_state where
  "init_strategy = \<lparr> last_qml_bull = None, last_qml_bear = None \<rparr>"


section \<open>\<open>core/indicators.py\<close>: the predicates read by the strategy\<close>

definition check_macd_cross_up :: "real list \<Rightarrow> real list \<Rightarrow> nat \<Rightarrow> error + bool" where
  "check_macd_cross_up macd_s signal_s idx =
     (if idx < 1 then Inr False
      else if idx < length macd_s \<and> idx < length signal_s
      then Inr (macd_s ! idx > signal_s ! idx \<and> macd_s ! (idx - 1) \<le> signal_s ! (idx - 1))
      else Inl IndexError)"

definition check_macd_cross_down :: "real list \<Rightarrow> real list \<Rightarrow> nat \<Rightarrow> error + bool" where
  "check_macd_cross_down macd_s signal_s idx =
     (if idx < 1 then Inr False
      else if idx < length macd_s \<and> idx < length signal_s
      then Inr (macd_s ! idx < signal_s ! idx \<and> macd_s ! (idx - 1) \<ge> signal_s ! (idx - 1))
      else Inl IndexError)"

definition check_price_above_ema :: "real list \<Rightarrow> real list \<Rightarrow> nat \<Rightarrow> error + bool" where
  "check_price_above_ema close_s ema_s idx =
     (if idx < length close_s \<and> idx < length ema_s
      then Inr (close_s ! idx > ema_s ! idx) else Inl IndexError)"

definition check_price_below_ema :: "real list \<Rightarrow> real list \<Rightarrow> nat \<Rightarrow> error + bool" where
  "check_price_below_ema close_s ema_s idx =
     (if idx < length close_s \<and> idx < length ema_s
      then Inr (close_s ! idx < ema_s ! idx) else Inl IndexError)"


section \<open>\<open>core/patterns.py\<close>: the Quasimodo detector\<close>

text \<open>
  \<open>scipy.signal.argrelextrema(data, comparator, order=order)\<close> with its default
  \<open>mode='clip'\<close>: an index beyond either end of the array is replaced by the index of
  the nearest end (\<open>numpy.take\<close> with \<open>mode='clip'\<close>); position \<open>i\<close> is kept when the
  comparator holds between \<open>data[i]\<close> and both \<open>data[i + shift]\<close> and
  \<open>data[i - shift]\<close> for every \<open>shift\<close> from 1 to \<open>order\<close>. An order below 1 raises
  \<open>ValueError\<close>.
\<close>

definition take_clip :: "real list \<Rightarrow> int \<Rightarrow> real" where
  "take_clip data j =
     data ! (if j < 0 then 0 else if int (length data) \<le> j then length data - 1 else nat j)"

definition boolrelextrema :: "real list \<Rightarrow> (real \<Rightarrow> real \<Rightarrow> bool) \<Rightarrow> nat \<Rightarrow> nat \<Rightarrow> bool" where
  "boolrelextrema data comparator order i =
     list_all (\<lambda>shift. comparator (data ! i) (take_clip data (int i + int shift)) \<and>
                        comparator (data ! i) (take_clip data (int i - int shift)))
              [1..<Suc order]"

definition argrelextrema :: "real list \<Rightarrow> (real \<Rightarrow> real \<Rightarrow> bool) \<Rightarrow> int \<Rightarrow> error + nat list" where
  "argrelextrema data comparator order =
     (if order < 1 then Inl ValueError
      else Inr (filter (boolrelextrema data comparator (nat order)) [0..<length data]))"

definition detect_qml_bull :: "dataframe \<Rightarrow> nat \<Rightarrow> int \<Rightarrow> int \<Rightarrow> error + real option" where
  "detect_qml_bull df idx order recency =
     (let prices = take (idx + 1) (map low df) in
      case argrelextrema prices (<) order of
        Inl e \<Rightarrow> Inl e
      | Inr local_min_idx \<Rightarrow>
          if length local_min_idx < 3 then Inr None
          else
            (let idx3 = local_min_idx ! (length local_min_idx - 1);
                 idx2 = local_min_idx ! (length local_min_idx - 2);
                 idx1 = local_min_idx ! (length local_min_idx - 3);
                 low1 = prices ! idx1;
                 low2 = prices ! idx2;
                 low3 = prices ! idx3
             in if low2 < low1 \<and> low3 > low2 \<and> int idx - int idx3 < recency
                then Inr (Some low2) else Inr None))"

definition detect_qml_bear :: "dataframe \<Rightarrow> nat \<Rightarrow> int \<Rightarrow> int \<Rightarrow> error + real option" where
  "detect_qml_bear df idx order recency =
     (let prices = take (idx + 1) (map high df) in
      case argrelextrema prices (>) order of
        Inl e \<Rightarrow> Inl e
      | Inr local_max_idx \<Rightarrow>
          if length local_max_idx < 3 then Inr None
          else
            (let idx3 = local_max_idx ! (length local_max_idx - 1);
                 idx2 = local_max_idx ! (length local_max_idx - 2);
                 idx1 = local_max_idx ! (length local_max_idx - 3);
                 high1 = prices ! idx1;
                 high2 = prices ! idx2;
                 high3 = prices ! idx3
             in if high2 > high1 \<and> high3 < high2 \<and> int idx - int idx3 < recency
                then Inr (Some high2) else Inr None))"


section \<open>\<open>strategies/base.py\<close> and \<open>strategies/macd_ema_bb.py\<close>\<close>

definition check_filters :: "StrategyConfig \<Rightarrow> dataframe \<Rightarrow> nat \<Rightarrow> error + bool" where
  "check_filters config df idx =
     (if idx < length df then
        Inr (if use_vol_filter config \<and>
                volume (df ! idx) \<le> vol_avg (df ! idx) * vol_filter_mult config then False
             else if bb_width (df ! idx) < squeeze_threshold config then False
             else True)
      else Inl IndexError)"

definition check_long_signal ::
  "StrategyConfig \<Rightarrow> strategy_state \<Rightarrow> dataframe \<Rightarrow> nat \<Rightarrow> error + (bool \<times> strategy_state)" where
  "check_long_signal config self df idx =
     (case check_macd_cross_up (map macd df) (map signal df) idx of
        Inl e \<Rightarrow> Inl e
      | Inr c1 \<Rightarrow>
          if \<not> c1 then Inr (False, self)
          else
            (case check_price_above_ema (map close df) (map ema df) idx of
               Inl e \<Rightarrow> Inl e
             | Inr c2 \<Rightarrow>
                 if \<not> c2 then Inr (False, self)
                 else if use_qml config then
                   (case detect_qml_bull df idx (qml_order config) (qml_recency config) of
                      Inl e \<Rightarrow> Inl e
                    | Inr None \<Rightarrow> Inr (False, self)
                    | Inr (Some qml_level) \<Rightarrow>
                        Inr (True, self\<lparr>last_qml_bull := Some qml_level\<rparr>))
                 else Inr (True, self)))"

definition check_short_signal ::
  "StrategyConfig \<Rightarrow> strategy_state \<Rightarrow> dataframe \<Rightarrow> nat \<Rightarrow> error + (bool \<times> strategy_state)" where
  "check_short_signal config self df idx =
     (case check_macd_cross_down (map macd df) (map signal df) idx of
        Inl e \<Rightarrow> Inl e
      | Inr c1 \<Rightarrow>
          if \<not> c1 then Inr (False, self)
          else
            (case check_price_below_ema (map close df) (map ema df) idx of
               Inl e \<Rightarrow> Inl e
             | Inr c2 \<Rightarrow>
                 if \<not> c2 then Inr (False, self)
                 else if use_qml config then
                   (case detect_qml_bear df idx (qml_order config) (qml_recency config) of
                      Inl e \<Rightarrow> Inl e
                    | Inr None \<Rightarrow> Inr (False, self)
                    | Inr (Some qml_level) \<Rightarrow>
                        Inr (True, self\<lparr>last_qml_bear := Some qml_level\<rparr>))
                 else Inr (True, self)))"

text \<open>
  \<open>calculate_sl_tp\<close>: every caller leaves the parameter \<open>qml_level\<close> at its default and
  the body never reads it; the level comes from the remembered attribute.
\<close>

definition calculate_sl_tp ::
  "StrategyConfig \<Rightarrow> strategy_state \<Rightarrow> real \<Rightarrow> string \<Rightarrow> real \<Rightarrow> real \<times> real" where
  "calculate_sl_tp config self entry side_s atr_v =
     (let atr_offset = atr_v * atr_sl_mult config in
      if side_s = ''long'' then
        (let sl = (if use_qml_extreme_sl config \<and> last_qml_bull self \<noteq> None
                   then the (last_qml_bull self) - atr_offset
                   else entry - atr_offset);
             risk_v = entry - sl;
             tp = entry + risk_v * rr_ratio config
         in (sl, tp))
      else
        (let sl = (if use_qml_extreme_sl config \<and> last_qml_bear self \<noteq> None
                   then the (last_qml_bear self) + atr_offset
                   else entry + atr_offset);
             risk_v = sl - entry;
             tp = entry - risk_v * rr_ratio config
         in (sl, tp)))"

text \<open>
  \<open>generate_signal\<close>: \<open>current_price or df["close"].iloc[idx]\<close> takes the close when
  \<open>current_price\<close> is \<open>None\<close> or zero.
\<close>

definition generate_signal ::
  "StrategyConfig \<Rightarrow> strategy_state \<Rightarrow> dataframe \<Rightarrow> nat \<Rightarrow> real option
     \<Rightarrow> error + (Signal option \<times> strategy_state)" where
  "generate_signal config self df idx current_price =
     (case check_filters config df idx of
        Inl e \<Rightarrow> Inl e
      | Inr ok \<Rightarrow>
          if \<not> ok then Inr (None, self)
          else
            (let entry = (case current_price of
                            None \<Rightarrow> close (df ! idx)
                          | Some p \<Rightarrow> if p = 0 then close (df ! idx) else p);
                 atr_v = atr (df ! idx)
             in case check_long_signal config self df idx of
                  Inl e \<Rightarrow> Inl e
                | Inr (is_long, self1) \<Rightarrow>
                    if is_long then
                      (let (sl, tp) = calculate_sl_tp config self1 entry ''long'' atr_v
                       in Inr (Some \<lparr> side = ''long'', entry_price = entry, stop_loss = sl,
                                       take_profit = tp, quantity = None \<rparr>, self1))
                    else
                      (case check_short_signal config self1 df idx of
                         Inl e \<Rightarrow> Inl e
                       | Inr (is_short, self2) \<Rightarrow>
                           if is_short then
                             (let (sl, tp) = calculate_sl_tp config self2 entry ''short'' atr_v
                              in Inr (Some \<lparr> side = ''short'', entry_price = entry,
                                              stop_loss = sl, take_profit = tp,
                                              quantity = None \<rparr>, self2))
                           else Inr (None, self2))))"

definition check_exit_conditions ::
  "dataframe \<Rightarrow> nat \<Rightarrow> string \<Rightarrow> real \<Rightarrow> real \<Rightarrow> real \<Rightarrow> error + (bool \<times> real option \<times> string)" where
  "check_exit_conditions df idx position_side entry sl tp =
     (if \<not> idx < length df then Inl IndexError
      else
        (let high_v = high (df ! idx); low_v = low (df ! idx); close_v = close (df ! idx) in
         if position_side = ''long'' then
           (if low_v \<le> sl then Inr (True, Some sl, ''stop_loss'')
            else if high_v \<ge> tp then Inr (True, Some tp, ''take_profit'')
            else
              (case check_macd_cross_down (map macd df) (map signal df) idx of
                 Inl e \<Rightarrow> Inl e
               | Inr crossed \<Rightarrow>
                   if crossed then Inr (True, Some close_v, ''macd_reverse'')
                   else if high_v \<ge> bb_upper (df ! idx)
                   then Inr (True, Some (bb_upper (df ! idx)), ''bb_touch'')
                   else Inr (False, None, '''')))
         else
           (if high_v \<ge> sl then Inr (True, Some sl, ''stop_loss'')
            else if low_v \<le> tp then Inr (True, Some tp, ''take_profit'')
            else
              (case check_macd_cross_up (map macd df) (map signal df) idx of
                 Inl e \<Rightarrow> Inl e
               | Inr crossed \<Rightarrow>
                   if crossed then Inr (True, Some close_v, ''macd_reverse'')
                   else if low_v \<le> bb_lower (df ! idx)
                   then Inr (True, Some (bb_lower (df ! idx)), ''bb_touch'')
                   else Inr (False, None, '''')))))"

definition update_trailing_stop ::
  "dataframe \<Rightarrow> nat \<Rightarrow> string \<Rightarrow> real \<Rightarrow> real \<Rightarrow> bool \<Rightarrow> error + (real \<times> bool)" where
  "update_trailing_stop df idx position_side entry current_sl reached_1to1 =
     (if \<not> idx < length df then Inl IndexError
      else
        (let high_v = high (df ! idx); low_v = low (df ! idx); bb_mid_v = bb_mid (df ! idx) in
         if position_side = ''long'' then
           (let risk_v = entry - current_sl;
                target_1to1 = entry + risk_v;
                new_reached = (if \<not> reached_1to1 \<and> high_v \<ge> target_1to1 then True
                               else reached_1to1);
                new_sl = (if new_reached then max current_sl bb_mid_v else current_sl)
            in Inr (new_sl, new_reached))
         else
           (let risk_v = current_sl - entry;
                target_1to1 = entry - risk_v;
                new_reached = (if \<not> reached_1to1 \<and> low_v \<le> target_1to1 then True
                               else reached_1to1);
                new_sl = (if new_reached then min current_sl bb_mid_v else current_sl)
            in Inr (new_sl, new_reached))))"


section \<open>\<open>backtest/engine.py\<close>\<close>

record Trade =
  entry_idx :: nat
  exit_idx :: nat
  trade_entry_price :: real
  exit_price :: real
  trade_side :: string
  pnl_pct :: real
  exit_reason :: string

record BacktestResult =
  total_pnl_pct :: real
  win_rate :: real
  num_trades :: nat
  avg_pnl :: real
  max_drawdown :: real
  trades :: "Trade list"
  equity_curve :: "real list"

text \<open>The dictionary \<open>position\<close> of \<open>BacktestEngine.run\<close>, with its six fixed keys.\<close>

record position =
  pos_entry_idx :: nat
  pos_entry_price :: real
  pos_sl :: real
  pos_tp :: real
  pos_side :: string
  pos_reached_1to1 :: bool

text \<open>
  The local variables of \<open>BacktestEngine.run\<close> together with the strategy object's
  attributes. \<open>in_position\<close> and \<open>position\<close> are always assigned together
  (\<open>True\<close> with a dictionary, \<open>False\<close> with \<open>None\<close>), so both are one option value.
\<close>

record run_state =
  run_trades :: "Trade list"
  run_equity_curve :: "real list"
  run_current_equity :: real
  run_position :: "position option"
  run_strategy :: strategy_state

definition init_run_state :: "strategy_state \<Rightarrow> run_state" where
  "init_run_state self = \<lparr> run_trades = [], run_equity_curve = [1], run_current_equity = 1,
     run_position = None, run_strategy = self \<rparr>"

text \<open>The block \<open>if self.use_trailing: ...\<close> of the loop body.\<close>

definition trailing_block :: "bool \<Rightarrow> dataframe \<Rightarrow> nat \<Rightarrow> position \<Rightarrow> error + position" where
  "trailing_block use_trailing df i pos =
     (if use_trailing then
        (case update_trailing_stop df i (pos_side pos) (pos_entry_price pos) (pos_sl pos)
                (pos_reached_1to1 pos) of
           Inl e \<Rightarrow> Inl e
         | Inr (new_sl, new_reached) \<Rightarrow>
             Inr (pos\<lparr>pos_sl := new_sl, pos_reached_1to1 := new_reached\<rparr>))
      else Inr pos)"

text \<open>
  One iteration of \<open>for i in range(max_lookback, len(df))\<close>. The percentage PNL divides
  by the entry price; on a zero entry price numpy yields an infinity or NaN where HOL's
  division yields 0. The properties of the run below do not read the PNL, and those of
  the optimizer are stated for frames with positive closes.
\<close>

definition run_step ::
  "StrategyConfig \<Rightarrow> bool \<Rightarrow> dataframe \<Rightarrow> nat \<Rightarrow> run_state \<Rightarrow> error + run_state" where
  "run_step config use_trailing df i s =
     (case run_position s of
        None \<Rightarrow>
          (case generate_signal config (run_strategy s) df i None of
             Inl e \<Rightarrow> Inl e
           | Inr (None, self') \<Rightarrow> Inr (s\<lparr>run_strategy := self'\<rparr>)
           | Inr (Some sg, self') \<Rightarrow>
               Inr (s\<lparr>run_strategy := self',
                      run_position := Some \<lparr> pos_entry_idx = i,
                        pos_entry_price = entry_price sg, pos_sl = stop_loss sg,
                        pos_tp = take_profit sg, pos_side = side sg,
                        pos_reached_1to1 = False \<rparr>\<rparr>))
      | Some pos0 \<Rightarrow>
          (case trailing_block use_trailing df i pos0 of
             Inl e \<Rightarrow> Inl e
           | Inr pos \<Rightarrow>
               (case check_exit_conditions df i (pos_side pos) (pos_entry_price pos)
                       (pos_sl pos) (pos_tp pos) of
                  Inl e \<Rightarrow> Inl e
                | Inr (should_exit, exit_price_v, exit_reason_v) \<Rightarrow>
                    if should_exit then
                      (case exit_price_v of
                         None \<Rightarrow> Inl TypeError
                       | Some xp \<Rightarrow>
                           (let pnl = (if pos_side pos = ''long''
                                       then (xp - pos_entry_price pos) / pos_entry_price pos * 100
                                       else (pos_entry_price pos - xp) / pos_entry_price pos * 100);
                                trade = \<lparr> entry_idx = pos_entry_idx pos, exit_idx = i,
                                          trade_entry_price = pos_entry_price pos,
                                          exit_price = xp, trade_side = pos_side pos,
                                          pnl_pct = pnl, exit_reason = exit_reason_v \<rparr>;
                                eq = run_current_equity s * (1 + pnl / 100)
                            in Inr (s\<lparr>run_trades := run_trades s @ [trade],
                                      run_equity_curve := run_equity_curve s @ [eq],
                                      run_current_equity := eq,
                                      run_position := None\<rparr>)))
                    else Inr (s\<lparr>run_position := Some pos\<rparr>))))"

fun run_loop ::
  "StrategyConfig \<Rightarrow> bool \<Rightarrow> dataframe \<Rightarrow> nat list \<Rightarrow> run_state \<Rightarrow> error + run_state" where
  "run_loop config use_trailing df [] s = Inr s"
| "run_loop config use_trailing df (i # rest) s =
     (case run_step config use_trailing df i s of
        Inl e \<Rightarrow> Inl e
      | Inr s' \<Rightarrow> run_loop config use_trailing df rest s')"

text \<open>\<open>np.maximum.accumulate\<close> and \<open>np.max\<close> (which raises on an empty array).\<close>

fun accumulate_from :: "real \<Rightarrow> real list \<Rightarrow> real list" where
  "accumulate_from m [] = []"
| "accumulate_from m (x # xs) = max m x # accumulate_from (max m x) xs"

definition maximum_accumulate :: "real list \<Rightarrow> real list" where
  "maximum_accumulate xs = (case xs of [] \<Rightarrow> [] | x # rest \<Rightarrow> x # accumulate_from x rest)"

definition np_max :: "real list \<Rightarrow> error + real" where
  "np_max xs = (case xs of [] \<Rightarrow> Inl ValueError | x # rest \<Rightarrow> Inr (fold max rest x))"

definition calculate_stats :: "Trade list \<Rightarrow> real list \<Rightarrow> error + BacktestResult" where
  "calculate_stats trades_v equity_curve_v =
     (if trades_v = [] then
        Inr \<lparr> total_pnl_pct = 0, win_rate = 0, num_trades = 0, avg_pnl = 0,
              max_drawdown = 0, trades = [], equity_curve = [1] \<rparr>
      else
        (let pnls = map pnl_pct trades_v;
             total_pnl = sum_list pnls;
             win_rate_v = real (length (filter (\<lambda>p. p > 0) pnls)) / real (length pnls) * 100;
             avg_pnl_v = sum_list pnls / real (length pnls);
             running_max = maximum_accumulate equity_curve_v;
             drawdowns = map (\<lambda>(m, e). (m - e) / m * 100) (zip running_max equity_curve_v)
         in case np_max drawdowns of
              Inl e \<Rightarrow> Inl e
            | Inr max_drawdown_v \<Rightarrow>
                Inr \<lparr> total_pnl_pct = total_pnl, win_rate = win_rate_v,
                      num_trades = length trades_v, avg_pnl = avg_pnl_v,
                      max_drawdown = max_drawdown_v, trades = trades_v,
                      equity_curve = equity_curve_v \<rparr>))"

text \<open>
  \<open>BacktestEngine.run\<close>. The first argument is the configuration of the engine's strategy,
  the second the state of that strategy object when the run starts.
\<close>

definition run ::
  "StrategyConfig \<Rightarrow> strategy_state \<Rightarrow> bool \<Rightarrow> dataframe \<Rightarrow> nat \<Rightarrow> error + BacktestResult" where
  "run config self use_trailing df max_lookback =
     (case run_loop config use_trailing df [max_lookback..<length df] (init_run_state self) of
        Inl e \<Rightarrow> Inl e
      | Inr s \<Rightarrow> calculate_stats (run_trades s) (run_equity_curve s))"


section \<open>\<open>core/indicators.py\<close>: the indicator pipeline\<close>

text \<open>
  One candle of the DataFrame that the data supplier returns. Prices and volumes
  are finite numbers; a frame whose columns are missing is outside the model.
\<close>

record bar =
  bar_open :: real
  bar_high :: real
  bar_low :: real
  bar_close :: real
  bar_volume :: real

text \<open>
  A rolling window that is not yet full yields NaN in pandas. The rows of the model hold
  reals, so such a cell holds the value below; the optimizer's engine starts at bar 100
  and reads indicator cells from bar 99 on, behind every warm-up of the periods it uses
  (26, 20, 14, 20).
\<close>

definition nan_cell :: real where
  "nan_cell = 0"

text \<open>
  \<open>series.ewm(span=period, adjust=False).mean()\<close>: the first value seeds the average,
  each later value enters with weight \<open>2 / (span + 1)\<close>; a span below 1 raises
  \<open>ValueError\<close>.
\<close>

fun ewm_from :: "real \<Rightarrow> real \<Rightarrow> real list \<Rightarrow> real list" where
  "ewm_from alpha y [] = []"
| "ewm_from alpha y (x # xs) =
     ((1 - alpha) * y + alpha * x) # ewm_from alpha ((1 - alpha) * y + alpha * x) xs"

definition ewm_mean :: "int \<Rightarrow> real list \<Rightarrow> real list" where
  "ewm_mean span_v xs =
     (case xs of [] \<Rightarrow> [] | x # rest \<Rightarrow> x # ewm_from (2 / (of_int span_v + 1)) x rest)"

text \<open>
  \<open>series.rolling(period)\<close>: the window of bar \<open>i\<close> holds the last \<open>period\<close> values up to
  \<open>i\<close>; \<open>.mean()\<close> and \<open>.std()\<close> (the sample deviation, with \<open>period - 1\<close> in the
  denominator) are NaN until the window is full, and the deviation also for a window of one
  value.
\<close>

definition rolling_window :: "nat \<Rightarrow> real list \<Rightarrow> nat \<Rightarrow> real list" where
  "rolling_window period xs i = take period (drop (i + 1 - period) xs)"

definition rolling_mean :: "nat \<Rightarrow> real list \<Rightarrow> nat \<Rightarrow> real" where
  "rolling_mean period xs i =
     (if period = 0 \<or> i + 1 < period then nan_cell
      else sum_list (rolling_window period xs i) / real period)"

definition rolling_std :: "nat \<Rightarrow> real list \<Rightarrow> nat \<Rightarrow> real" where
  "rolling_std period xs i =
     (if period \<le> 1 \<or> i + 1 < period then nan_cell
      else sqrt (sum_list (map (\<lambda>x. (x - rolling_mean period xs i) ^ 2)
                             (rolling_window period xs i)) / real (period - 1)))"

text \<open>
  \<open>calculate_atr\<close>: the true range of bar 0 is NaN (there is no previous close), so the
  rolling mean of the true range is defined from bar \<open>period\<close> on.
\<close>

definition true_range :: "bar list \<Rightarrow> nat \<Rightarrow> real" where
  "true_range raw i =
     (if i = 0 then nan_cell
      else max (bar_high (raw ! i) - bar_low (raw ! i))
               (max \<bar>bar_high (raw ! i) - bar_close (raw ! (i - 1))\<bar>
                    \<bar>bar_low (raw ! i) - bar_close (raw ! (i - 1))\<bar>))"

definition calculate_atr :: "bar list \<Rightarrow> nat \<Rightarrow> nat \<Rightarrow> real" where
  "calculate_atr raw period i =
     (if period = 0 \<or> i < period then nan_cell
      else sum_list (map (true_range raw) [i + 1 - period..<i + 1]) / real period)"

text \<open>
  \<open>calculate_indicators\<close>: the columns are computed from the close (and the high, low
  and volume) and joined row by row. A span below 1 or a negative window raises
  \<open>ValueError\<close>. The width of the bands divides by the mid band, which is positive when
  the closes are.
\<close>

definition calculate_indicators ::
  "bar list \<Rightarrow> int \<Rightarrow> int \<Rightarrow> int \<Rightarrow> int \<Rightarrow> int \<Rightarrow> real \<Rightarrow> int \<Rightarrow> int \<Rightarrow> error + dataframe" where
  "calculate_indicators raw ema_period_v macd_fast_v macd_slow_v macd_signal_v bb_period_v
       bb_std_v atr_period_v vol_period_v =
     (if ema_period_v < 1 \<or> macd_fast_v < 1 \<or> macd_slow_v < 1 \<or> macd_signal_v < 1 \<or>
         bb_period_v < 0 \<or> atr_period_v < 0 \<or> vol_period_v < 0
      then Inl ValueError
      else
        (let closes = map bar_close raw;
             ema_s = ewm_mean ema_period_v closes;
             macd_s = map (\<lambda>(f, s). f - s)
                        (zip (ewm_mean macd_fast_v closes) (ewm_mean macd_slow_v closes));
             signal_s = ewm_mean macd_signal_v macd_s;
             middle = rolling_mean (nat bb_period_v) closes;
             std = rolling_std (nat bb_period_v) closes;
             upper = (\<lambda>i. middle i + bb_std_v * std i);
             lower = (\<lambda>i. middle i - bb_std_v * std i)
         in Inr (map (\<lambda>i. \<lparr> high = bar_high (raw ! i), low = bar_low (raw ! i),
                              close = bar_close (raw ! i), volume = bar_volume (raw ! i),
                              ema = ema_s ! i, macd = macd_s ! i, signal = signal_s ! i,
                              bb_upper = upper i, bb_mid = middle i, bb_lower = lower i,
                              bb_width = (upper i - lower i) / middle i * 100,
                              atr = calculate_atr raw (nat atr_period_v) i,
                              vol_avg = rolling_mean (nat vol_period_v)
                                          (map bar_volume raw) i \<rparr>)
                     [0..<length raw])))"


section \<open>\<open>backtest/optimizer.py\<close>\<close>

text \<open>
  A value of the parameter grid, tagged with its key and typed as \<open>StrategyConfig\<close>
  declares the field (the interval is the string handed to the data supplier); a grid that
  holds a value of another type is outside the model. \<open>P_other\<close> is a value under a key
  that the optimizer never reads. The grid lists, in the order of the dictionary's keys,
  the candidate values of each key, and a parameter combination
  \<open>dict(zip(keys, combo))\<close> is the list of its values.
\<close>

datatype param_value =
    is_interval: P_interval (the_interval: string)
  | is_ema_period: P_ema_period (the_ema_period: int)
  | is_bb_std: P_bb_std (the_bb_std: real)
  | is_atr_sl_mult: P_atr_sl_mult (the_atr_sl_mult: real)
  | is_rr_ratio: P_rr_ratio (the_rr_ratio: real)
  | is_qml_order: P_qml_order (the_qml_order: int)
  | is_qml_recency: P_qml_recency (the_qml_recency: int)
  | is_use_vol_filter: P_use_vol_filter (the_use_vol_filter: bool)
  | is_squeeze_threshold: P_squeeze_threshold (the_squeeze_threshold: real)
  | is_use_qml: P_use_qml (the_use_qml: bool)
  | is_use_qml_extreme_sl: P_use_qml_extreme_sl (the_use_qml_extreme_sl: bool)
  | P_other string




















section \<open>Concrete inputs\<close>

text \<open>Scenario C of the specification: a bar whose range covers both the stop and the target.\<close>

definition bar_c :: row where
  "bar_c = \<lparr> high = 112, low = 94, close = 100, volume = 1, ema = 90, macd = 0, signal = 0,
     bb_upper = 120, bb_mid = 90, bb_lower = 80, bb_width = 2, atr = 1, vol_avg = 1 \<rparr>"

definition bar_flat :: row where
  "bar_flat = \<lparr> high = 100, low = 100, close = 100, volume = 1, ema = 90, macd = 0, signal = 0,
     bb_upper = 120, bb_mid = 90, bb_lower = 80, bb_width = 2, atr = 2, vol_avg = 1 \<rparr>"

definition bar_cross_up :: row where
  "bar_cross_up = \<lparr> high = 100, low = 100, close = 100, volume = 1, ema = 90, macd = 1,
     signal = 0, bb_upper = 120, bb_mid = 90, bb_lower = 80, bb_width = 2, atr = 2,
     vol_avg = 1 \<rparr>"

text \<open>A bar that reaches the 1:1 level of a long position (entry 100, stop 95) without
  closing it, and that position.\<close>

definition bar_trail :: row where
  "bar_trail = \<lparr> high = 106, low = 99, close = 104, volume = 1, ema = 90, macd = 1, signal = 0,
     bb_upper = 120, bb_mid = 98, bb_lower = 80, bb_width = 2, atr = 2, vol_avg = 1 \<rparr>"

definition pos_long :: position where
  "pos_long = \<lparr> pos_entry_idx = 0, pos_entry_price = 100, pos_sl = 95, pos_tp = 110,
     pos_side = ''long'', pos_reached_1to1 = False \<rparr>"

text \<open>The invariant of the loop of \<open>BacktestEngine.run\<close> on its two lists.\<close>

definition curve_ok :: "run_state \<Rightarrow> bool" where
  "curve_ok s = (length (run_equity_curve s) = Suc (length (run_trades s)) \<and>
                 run_equity_curve s ! 0 = 1)"

text \<open>The result of the run over \<open>[bar_flat, bar_cross_up, bar_c]\<close> from index 1: a long
  position opened at bar 1 and stopped out at bar 2.\<close>

definition result_one :: BacktestResult where
  "result_one = \<lparr> total_pnl_pct = - 3, win_rate = 0, num_trades = 1, avg_pnl = - 3,
     max_drawdown = 3,
     trades = [\<lparr> entry_idx = 1, exit_idx = 2, trade_entry_price = 100, exit_price = 97,
                 trade_side = ''long'', pnl_pct = - 3, exit_reason = ''stop_loss'' \<rparr>],
     equity_curve = [1, 97 / 100] \<rparr>"

definition result_empty :: BacktestResult where
  "result_empty = \<lparr> total_pnl_pct = 0, win_rate = 0, num_trades = 0, avg_pnl = 0,
     max_drawdown = 0, trades = [], equity_curve = [1] \<rparr>"

text \<open>The invariant of the loop on the recorded trades and the open position, before the
  iteration for a bar index not below \<open>b\<close>.\<close>

definition trades_ok :: "nat \<Rightarrow> run_state \<Rightarrow> bool" where
  "trades_ok b s =
     ((\<forall>t\<in>set (run_trades s). entry_idx t < exit_idx t \<and> exit_idx t < b) \<and>
      sorted_wrt (\<lambda>t u. exit_idx t < entry_idx u) (run_trades s) \<and>
      (case run_position s of
         None \<Rightarrow> True
       | Some p \<Rightarrow> pos_entry_idx p < b \<and>
                   (\<forall>t\<in>set (run_trades s). exit_idx t < pos_entry_idx p)))"

text \<open>The result of the run over \<open>[bar_flat, bar_cross_up, bar_c, bar_cross_up, bar_c]\<close>
  from index 1: two long positions, each stopped out on the bar after its entry.\<close>

definition result_two :: BacktestResult where
  "result_two = \<lparr> total_pnl_pct = - 6, win_rate = 0, num_trades = 2, avg_pnl = - 3,
     max_drawdown = 591 / 100,
     trades = [\<lparr> entry_idx = 1, exit_idx = 2, trade_entry_price = 100, exit_price = 97,
                 trade_side = ''long'', pnl_pct = - 3, exit_reason = ''stop_loss'' \<rparr>,
               \<lparr> entry_idx = 3, exit_idx = 4, trade_entry_price = 100, exit_price = 97,
                 trade_side = ''long'', pnl_pct = - 3, exit_reason = ''stop_loss'' \<rparr>],
     equity_curve = [1, 97 / 100, 9409 / 10000] \<rparr>"

text \<open>
  A frame whose lows have local minima 100, 90 and 95 at bars 1, 3 and 5 (a sweep below the
  first low followed by a higher low), closed by one more bar; pattern gating and
  extreme-stop mode are enabled with \<open>qml_order = 1\<close>.
\<close>

definition config_qml :: StrategyConfig where
  "config_qml = default_config\<lparr>qml_order := 1, use_qml := True, use_qml_extreme_sl := True\<rparr>"

definition bar_low :: "real \<Rightarrow> row" where
  "bar_low l = \<lparr> high = 120, low = l, close = 115, volume = 1, ema = 90, macd = 0, signal = 0,
     bb_upper = 130, bb_mid = 100, bb_lower = 80, bb_width = 2, atr = 10, vol_avg = 1 \<rparr>"

definition bar_drop :: row where
  "bar_drop = \<lparr> high = 70, low = 50, close = 60, volume = 1, ema = 55, macd = 1, signal = 0,
     bb_upper = 130, bb_mid = 100, bb_lower = 40, bb_width = 2, atr = 10, vol_avg = 1 \<rparr>"

definition bar_rise :: row where
  "bar_rise = \<lparr> high = 125, low = 112, close = 120, volume = 1, ema = 100, macd = 1, signal = 0,
     bb_upper = 130, bb_mid = 100, bb_lower = 40, bb_width = 2, atr = 10, vol_avg = 1 \<rparr>"

definition frame_sweep :: "row \<Rightarrow> dataframe" where
  "frame_sweep r = [bar_low 110, bar_low 100, bar_low 110, bar_low 90, bar_low 110, bar_low 95,
                    bar_low 110, r]"

definition signal_drop :: Signal where
  "signal_drop = \<lparr> side = ''long'', entry_price = 60, stop_loss = 75, take_profit = 30,
     quantity = None \<rparr>"

definition signal_rise :: Signal where
  "signal_rise = \<lparr> side = ''long'', entry_price = 120, stop_loss = 75, take_profit = 210,
     quantity = None \<rparr>"

















text \<open>The invariant of the loop on the entry prices.\<close>

definition entries_positive :: "run_state \<Rightarrow> bool" where
  "entries_positive s =
     ((\<forall>t\<in>set (run_trades s). 0 < trade_entry_price t) \<and>
      (case run_position s of None \<Rightarrow> True | Some p \<Rightarrow> 0 < pos_entry_price p))"

text \<open>
  The pattern rule in the words of the specification. A point is a local extremum when the
  comparator (strictly lower for minima, strictly higher for maxima) holds between it and
  every other point of the sequence within \<open>order\<close> positions of it, on either side;
  \<open>spec_extrema\<close> collects these points in sequence order. \<open>interior_extrema\<close> keeps
  only those that are neither the first nor the last point of the sequence. The three-point
  rule reads the three most recent extrema \<open>e1\<close>, \<open>e2\<close>, \<open>e3\<close> and returns \<open>e2\<close>
  when the comparator holds from \<open>e2\<close> to \<open>e1\<close> and to \<open>e3\<close> and the most recent
  extremum is fewer than \<open>recency\<close> bars before \<open>idx\<close>.
\<close>

definition local_extremum :: "(real \<Rightarrow> real \<Rightarrow> bool) \<Rightarrow> real list \<Rightarrow> nat \<Rightarrow> nat \<Rightarrow> bool" where
  "local_extremum comparator ps order i =
     list_all (\<lambda>j. j \<noteq> i \<and> j \<le> i + order \<and> i \<le> j + order \<longrightarrow> comparator (ps ! i) (ps ! j))
       [0..<length ps]"

definition spec_extrema :: "(real \<Rightarrow> real \<Rightarrow> bool) \<Rightarrow> real list \<Rightarrow> nat \<Rightarrow> nat list" where
  "spec_extrema comparator ps order = filter (local_extremum comparator ps order) [0..<length ps]"

definition interior_extrema :: "(real \<Rightarrow> real \<Rightarrow> bool) \<Rightarrow> real list \<Rightarrow> nat \<Rightarrow> nat list" where
  "interior_extrema comparator ps order =
     filter (\<lambda>i. 0 < i \<and> Suc i < length ps \<and> local_extremum comparator ps order i)
       [0..<length ps]"

definition three_point_rule ::
  "(real \<Rightarrow> real \<Rightarrow> bool) \<Rightarrow> real list \<Rightarrow> nat list \<Rightarrow> nat \<Rightarrow> int \<Rightarrow> real option" where
  "three_point_rule comparator ps ext idx recency =
     (if length ext < 3 then None
      else
        (let e1 = ps ! (ext ! (length ext - 3));
             e2 = ps ! (ext ! (length ext - 2));
             e3 = ps ! (ext ! (length ext - 1))
         in if comparator e2 e1 \<and> comparator e2 e3 \<and>
               int idx - int (ext ! (length ext - 1)) < recency
            then Some e2 else None))"

definition spec_detect_qml_bull :: "dataframe \<Rightarrow> nat \<Rightarrow> int \<Rightarrow> int \<Rightarrow> real option" where
  "spec_detect_qml_bull df idx order recency =
     three_point_rule (<) (take (idx + 1) (map low df))
       (spec_extrema (<) (take (idx + 1) (map low df)) (nat order)) idx recency"

text \<open>Lows whose last point, and lows whose first point, is lower than its only neighbour.\<close>

definition frame_fresh_low :: dataframe where
  "frame_fresh_low = map bar_low [5, 3, 5, 1, 5, 2]"

definition frame_first_low :: dataframe where
  "frame_first_low = map bar_low [3, 5, 1, 5, 2, 5]"

section \<open>Exit conditions\<close>

text \<open>
  C1. For an open long position \<open>check_exit_conditions\<close> tests, in this order, the
  stop-loss (bar low at or below the stop, exit at the stop), the take-profit (bar high at
  or above the target, exit at the target), the opposite oscillator cross (exit at the
  close) and the upper-band touch (exit at the band); the first test that holds decides.
  In particular a bar with low at or below the stop and high at or above the target exits
  as \<open>stop_loss\<close> at the stop. The short side is the mirror image.
\<close>

theorem exit_priority:
  assumes "idx < length df"
  shows
   "(low (df ! idx) \<le> sl \<longrightarrow>
       check_exit_conditions df idx ''long'' entry sl tp = Inr (True, Some sl, ''stop_loss'')) \<and>
    (\<not> low (df ! idx) \<le> sl \<and> high (df ! idx) \<ge> tp \<longrightarrow>
       check_exit_conditions df idx ''long'' entry sl tp = Inr (True, Some tp, ''take_profit'')) \<and>
    (\<not> low (df ! idx) \<le> sl \<and> \<not> high (df ! idx) \<ge> tp \<and>
     check_macd_cross_down (map macd df) (map signal df) idx = Inr True \<longrightarrow>
       check_exit_conditions df idx ''long'' entry sl tp =
         Inr (True, Some (close (df ! idx)), ''macd_reverse'')) \<and>
    (\<not> low (df ! idx) \<le> sl \<and> \<not> high (df ! idx) \<ge> tp \<and>
     check_macd_cross_down (map macd df) (map signal df) idx = Inr False \<and>
     high (df ! idx) \<ge> bb_upper (df ! idx) \<longrightarrow>
       check_exit_conditions df idx ''long'' entry sl tp =
         Inr (True, Some (bb_upper (df ! idx)), ''bb_touch'')) \<and>
    (\<not> low (df ! idx) \<le> sl \<and> \<not> high (df ! idx) \<ge> tp \<and>
     check_macd_cross_down (map macd df) (map signal df) idx = Inr False \<and>
     \<not> high (df ! idx) \<ge> bb_upper (df ! idx) \<longrightarrow>
       check_exit_conditions df idx ''long'' entry sl tp = Inr (False, None, '''')) \<and>
    (high (df ! idx) \<ge> sl \<longrightarrow>
       check_exit_conditions df idx ''short'' entry sl tp = Inr (True, Some sl, ''stop_loss'')) \<and>
    (\<not> high (df ! idx) \<ge> sl \<and> low (df ! idx) \<le> tp \<longrightarrow>
       check_exit_conditions df idx ''short'' entry sl tp = Inr (True, Some tp, ''take_profit'')) \<and>
    (\<not> high (df ! idx) \<ge> sl \<and> \<not> low (df ! idx) \<le> tp \<and>
     check_macd_cross_up (map macd df) (map signal df) idx = Inr True \<longrightarrow>
       check_exit_conditions df idx ''short'' entry sl tp =
         Inr (True, Some (close (df ! idx)), ''macd_reverse'')) \<and>
    (\<not> high (df ! idx) \<ge> sl \<and> \<not> low (df ! idx) \<le> tp \<and>
     check_macd_cross_up (map macd df) (map signal df) idx = Inr False \<and>
     low (df ! idx) \<le> bb_lower (df ! idx) \<longrightarrow>
       check_exit_conditions df idx ''short'' entry sl tp =
         Inr (True, Some (bb_lower (df ! idx)), ''bb_touch'')) \<and>
    (\<not> high (df ! idx) \<ge> sl \<and> \<not> low (df ! idx) \<le> tp \<and>
     check_macd_cross_up (map macd df) (map signal df) idx = Inr False \<and>
     \<not> low (df ! idx) \<le> bb_lower (df ! idx) \<longrightarrow>
       check_exit_conditions df idx ''short'' entry sl tp = Inr (False, None, ''''))"
  using assms by (simp add: check_exit_conditions_def Let_def)

theorem exit_priority_witness:
  "0 < length [bar_c] \<and> low ([bar_c] ! 0) \<le> 95 \<and> high ([bar_c] ! 0) \<ge> 110 \<and>
   check_exit_conditions [bar_c] 0 ''long'' 100 95 110 = Inr (True, Some 95, ''stop_loss'') \<and>
   \<not> high ([bar_c] ! 0) \<ge> 115 \<and> low ([bar_c] ! 0) \<le> 95 \<and>
   check_exit_conditions [bar_c] 0 ''short'' 100 115 95 = Inr (True, Some 95, ''take_profit'')"
  using exit_priority [of 0 "[bar_c]" 95 100 110] exit_priority [of 0 "[bar_c]" 115 100 95]
  by (simp add: bar_c_def)


section \<open>Entry filters and entry levels\<close>

text \<open>
  C7. The squeeze filter is applied whatever the flags are: a band width below
  \<open>squeeze_threshold\<close> makes \<open>check_filters\<close> return \<open>False\<close> and
  \<open>generate_signal\<close> return no signal. The volume comparison takes part only when
  \<open>use_vol_filter\<close> is set.
\<close>

theorem filters_squeeze:
  assumes "idx < length df"
  shows
   "(bb_width (df ! idx) < squeeze_threshold config \<longrightarrow>
       check_filters config df idx = Inr False \<and>
       generate_signal config self df idx current_price = Inr (None, self)) \<and>
    (\<not> use_vol_filter config \<longrightarrow>
       check_filters config df idx = Inr (\<not> bb_width (df ! idx) < squeeze_threshold config)) \<and>
    (use_vol_filter config \<longrightarrow>
       check_filters config df idx =
         Inr (\<not> volume (df ! idx) \<le> vol_avg (df ! idx) * vol_filter_mult config \<and>
              \<not> bb_width (df ! idx) < squeeze_threshold config))"
  using assms by (simp add: check_filters_def generate_signal_def)

theorem filters_squeeze_witness:
  "0 < length [bar_c] \<and>
   bb_width ([bar_c] ! 0) < squeeze_threshold (default_config\<lparr>squeeze_threshold := 3\<rparr>) \<and>
   \<not> use_vol_filter (default_config\<lparr>squeeze_threshold := 3\<rparr>) \<and>
   check_filters (default_config\<lparr>squeeze_threshold := 3\<rparr>) [bar_c] 0 = Inr False \<and>
   generate_signal (default_config\<lparr>squeeze_threshold := 3\<rparr>) init_strategy [bar_c] 0 None
     = Inr (None, init_strategy) \<and>
   use_vol_filter (default_config\<lparr>use_vol_filter := True\<rparr>) \<and>
   check_filters (default_config\<lparr>use_vol_filter := True\<rparr>) [bar_c] 0 = Inr True"
  using filters_squeeze [of 0 "[bar_c]" "default_config\<lparr>squeeze_threshold := 3\<rparr>"
          init_strategy None]
        filters_squeeze [of 0 "[bar_c]" "default_config\<lparr>use_vol_filter := True\<rparr>"
          init_strategy None]
  by (simp add: bar_c_def default_config_def)

text \<open>
  C9. With pattern gating and extreme-stop mode disabled, and \<open>generate_signal\<close> called
  as the engine calls it (without a current price), an upward cross of the
  oscillator at bar \<open>k\<close> (at or below the signal line at \<open>k - 1\<close>, above it at \<open>k\<close>)
  with the close above the trend average and the filters passed yields a long signal
  entered at the close, with the stop at close minus ATR times \<open>atr_sl_mult\<close> and the
  target at close plus (close minus stop) times \<open>rr_ratio\<close>.
\<close>

theorem long_signal_levels:
  assumes "\<not> use_qml config" and "\<not> use_qml_extreme_sl config"
    and "0 < k" and "k < length df"
    and "macd (df ! (k - 1)) \<le> signal (df ! (k - 1))" and "macd (df ! k) > signal (df ! k)"
    and "close (df ! k) > ema (df ! k)"
    and "check_filters config df k = Inr True"
  shows "generate_signal config self df k None =
           Inr (Some \<lparr> side = ''long'', entry_price = close (df ! k),
                        stop_loss = close (df ! k) - atr (df ! k) * atr_sl_mult config,
                        take_profit = close (df ! k) +
                          (close (df ! k) - (close (df ! k) - atr (df ! k) * atr_sl_mult config))
                            * rr_ratio config,
                        quantity = None \<rparr>, self)"
  using assms
  by (simp add: generate_signal_def check_long_signal_def check_macd_cross_up_def
      check_price_above_ema_def calculate_sl_tp_def Let_def)

theorem long_signal_levels_witness:
  "\<not> use_qml default_config \<and> \<not> use_qml_extreme_sl default_config \<and>
   (0::nat) < 1 \<and> 1 < length [bar_flat, bar_cross_up] \<and>
   macd ([bar_flat, bar_cross_up] ! (1 - 1)) \<le> signal ([bar_flat, bar_cross_up] ! (1 - 1)) \<and>
   macd ([bar_flat, bar_cross_up] ! 1) > signal ([bar_flat, bar_cross_up] ! 1) \<and>
   close ([bar_flat, bar_cross_up] ! 1) > ema ([bar_flat, bar_cross_up] ! 1) \<and>
   check_filters default_config [bar_flat, bar_cross_up] 1 = Inr True \<and>
   generate_signal default_config init_strategy [bar_flat, bar_cross_up] 1 None =
     Inr (Some \<lparr> side = ''long'', entry_price = 100, stop_loss = 97, take_profit = 106,
                  quantity = None \<rparr>, init_strategy)"
  using long_signal_levels [of default_config 1 "[bar_flat, bar_cross_up]" init_strategy]
  by (simp add: bar_flat_def bar_cross_up_def default_config_def check_filters_def)


section \<open>Trailing stop\<close>

lemma update_trailing_stop_props:
  assumes "update_trailing_stop df idx ps entry cur reached = Inr (new_sl, new_reached)"
  shows "(reached \<longrightarrow> new_reached) \<and>
         (ps = ''long'' \<longrightarrow> cur \<le> new_sl \<and>
            new_sl = (if new_reached then max cur (bb_mid (df ! idx)) else cur)) \<and>
         (ps \<noteq> ''long'' \<longrightarrow> new_sl \<le> cur \<and>
            new_sl = (if new_reached then min cur (bb_mid (df ! idx)) else cur))"
  using assms by (auto simp: update_trailing_stop_def Let_def split: if_splits)

lemma update_trailing_stop_returns:
  "idx < length df \<Longrightarrow> \<exists>r. update_trailing_stop df idx ps entry cur reached = Inr r"
  by (simp add: update_trailing_stop_def Let_def)

lemma trailing_block_props:
  assumes "trailing_block ut df i p = Inr p1"
  shows "pos_side p1 = pos_side p \<and> pos_entry_idx p1 = pos_entry_idx p \<and>
         pos_entry_price p1 = pos_entry_price p \<and> pos_tp p1 = pos_tp p \<and>
         (pos_reached_1to1 p \<longrightarrow> pos_reached_1to1 p1) \<and>
         (pos_side p = ''long'' \<longrightarrow> pos_sl p \<le> pos_sl p1) \<and>
         (pos_side p \<noteq> ''long'' \<longrightarrow> pos_sl p1 \<le> pos_sl p)"
proof (cases ut)
  case False
  with assms show ?thesis by (simp add: trailing_block_def)
next
  case True
  with assms obtain new_sl new_reached where
    u: "update_trailing_stop df i (pos_side p) (pos_entry_price p) (pos_sl p) (pos_reached_1to1 p)
          = Inr (new_sl, new_reached)"
    and p1: "p1 = p\<lparr>pos_sl := new_sl, pos_reached_1to1 := new_reached\<rparr>"
    by (auto simp: trailing_block_def split: sum.splits)
  from update_trailing_stop_props [OF u] p1 show ?thesis by auto
qed

lemma run_step_flat:
  assumes "run_step config ut df i s = Inr s'" and "run_position s = None"
  shows "run_trades s' = run_trades s \<and> run_equity_curve s' = run_equity_curve s \<and>
         (case run_position s' of None \<Rightarrow> True | Some p \<Rightarrow> pos_entry_idx p = i)"
  using assms by (auto simp: run_step_def split: sum.splits option.splits prod.splits)

lemma run_step_open:
  assumes "run_step config ut df i s = Inr s'" and "run_position s = Some p"
  shows "(run_position s' = None \<and>
          (\<exists>t. run_trades s' = run_trades s @ [t] \<and> entry_idx t = pos_entry_idx p \<and> exit_idx t = i) \<and>
          (\<exists>e. run_equity_curve s' = run_equity_curve s @ [e])) \<or>
         (\<exists>p'. run_position s' = Some p' \<and> run_trades s' = run_trades s \<and>
               run_equity_curve s' = run_equity_curve s \<and>
               trailing_block ut df i p = Inr p')"
  using assms
  by (auto simp: run_step_def Let_def trailing_block_props
      split: sum.splits option.splits prod.splits if_splits)

lemma run_loop_trades_length:
  "run_loop config ut df bars s = Inr s' \<Longrightarrow> length (run_trades s) \<le> length (run_trades s')"
proof (induction bars arbitrary: s)
  case Nil
  then show ?case by simp
next
  case (Cons i rest)
  then obtain s1 where s1: "run_step config ut df i s = Inr s1"
    and r: "run_loop config ut df rest s1 = Inr s'"
    by (auto split: sum.splits)
  have "length (run_trades s) \<le> length (run_trades s1)"
  proof (cases "run_position s")
    case None
    with run_step_flat [OF s1] show ?thesis by simp
  next
    case (Some p)
    with run_step_open [OF s1] show ?thesis by auto
  qed
  with Cons.IH [OF r] show ?case by simp
qed

lemma run_loop_position_monotone:
  assumes "run_loop config ut df bars s = Inr s'" and "run_position s = Some p"
    and "run_position s' = Some p'" and "run_trades s' = run_trades s"
  shows "pos_side p' = pos_side p \<and> pos_entry_idx p' = pos_entry_idx p \<and>
         (pos_reached_1to1 p \<longrightarrow> pos_reached_1to1 p') \<and>
         (pos_side p = ''long'' \<longrightarrow> pos_sl p \<le> pos_sl p') \<and>
         (pos_side p \<noteq> ''long'' \<longrightarrow> pos_sl p' \<le> pos_sl p)"
  using assms
proof (induction bars arbitrary: s p)
  case Nil
  then show ?case by simp
next
  case (Cons i rest)
  then obtain s1 where s1: "run_step config ut df i s = Inr s1"
    and r: "run_loop config ut df rest s1 = Inr s'"
    by (auto split: sum.splits)
  from run_step_open [OF s1 Cons.prems(2)] show ?case
  proof
    assume a: "run_position s1 = None \<and>
          (\<exists>t. run_trades s1 = run_trades s @ [t] \<and> entry_idx t = pos_entry_idx p \<and> exit_idx t = i) \<and>
          (\<exists>e. run_equity_curve s1 = run_equity_curve s @ [e])"
    then have "length (run_trades s1) = Suc (length (run_trades s))" by auto
    with run_loop_trades_length [OF r] Cons.prems(4) show ?thesis by simp
  next
    assume "\<exists>p1. run_position s1 = Some p1 \<and> run_trades s1 = run_trades s \<and>
               run_equity_curve s1 = run_equity_curve s \<and>
               trailing_block ut df i p = Inr p1"
    then obtain p1 where p1: "run_position s1 = Some p1" and t1: "run_trades s1 = run_trades s"
      and tb: "trailing_block ut df i p = Inr p1" by auto
    from Cons.IH [OF r p1 Cons.prems(3)] t1 Cons.prems(4)
    have ih: "pos_side p' = pos_side p1 \<and> pos_entry_idx p' = pos_entry_idx p1 \<and>
         (pos_reached_1to1 p1 \<longrightarrow> pos_reached_1to1 p') \<and>
         (pos_side p1 = ''long'' \<longrightarrow> pos_sl p1 \<le> pos_sl p') \<and>
         (pos_side p1 \<noteq> ''long'' \<longrightarrow> pos_sl p' \<le> pos_sl p1)" by simp
    from trailing_block_props [OF tb] ih show ?thesis by auto
  qed
qed


text \<open>
  C3. \<open>update_trailing_stop\<close> never clears the 1:1 flag and never loosens the stop: a
  flag passed as \<open>True\<close> is returned as \<open>True\<close>; for a long position the returned stop
  is at least the passed one, equal to the maximum of the passed stop and the bar's mid
  band once the flag is set and to the passed stop before; for a short position the same
  with the minimum. Hence, while one position stays open through a sequence of bars of a
  run (no trade is recorded in between), its recorded stop does not decrease for a long
  and does not increase for a short position.
\<close>

theorem trailing_stop_monotone:
  "(idx < length df \<longrightarrow>
      (\<exists>new_sl new_reached.
         update_trailing_stop df idx position_side entry current_sl reached_1to1
           = Inr (new_sl, new_reached) \<and>
         (reached_1to1 \<longrightarrow> new_reached) \<and>
         (position_side = ''long'' \<longrightarrow> current_sl \<le> new_sl \<and>
            new_sl = (if new_reached then max current_sl (bb_mid (df ! idx)) else current_sl)) \<and>
         (position_side \<noteq> ''long'' \<longrightarrow> new_sl \<le> current_sl \<and>
            new_sl = (if new_reached then min current_sl (bb_mid (df ! idx)) else current_sl)))) \<and>
   (run_loop config use_trailing frame bars s = Inr s' \<and> run_position s = Some p \<and>
    run_position s' = Some p' \<and> run_trades s' = run_trades s \<longrightarrow>
      pos_side p' = pos_side p \<and> pos_entry_idx p' = pos_entry_idx p \<and>
      (pos_reached_1to1 p \<longrightarrow> pos_reached_1to1 p') \<and>
      (pos_side p = ''long'' \<longrightarrow> pos_sl p \<le> pos_sl p') \<and>
      (pos_side p \<noteq> ''long'' \<longrightarrow> pos_sl p' \<le> pos_sl p))"
proof (intro conjI impI)
  assume i: "idx < length df"
  from update_trailing_stop_returns [OF i] obtain new_sl new_reached where
    u: "update_trailing_stop df idx position_side entry current_sl reached_1to1
           = Inr (new_sl, new_reached)" by (metis surj_pair)
  from update_trailing_stop_props [OF u] u
  show "\<exists>new_sl new_reached.
         update_trailing_stop df idx position_side entry current_sl reached_1to1
           = Inr (new_sl, new_reached) \<and>
         (reached_1to1 \<longrightarrow> new_reached) \<and>
         (position_side = ''long'' \<longrightarrow> current_sl \<le> new_sl \<and>
            new_sl = (if new_reached then max current_sl (bb_mid (df ! idx)) else current_sl)) \<and>
         (position_side \<noteq> ''long'' \<longrightarrow> new_sl \<le> current_sl \<and>
            new_sl = (if new_reached then min current_sl (bb_mid (df ! idx)) else current_sl))"
    by blast
next
  assume a: "run_loop config use_trailing frame bars s = Inr s' \<and> run_position s = Some p \<and>
    run_position s' = Some p' \<and> run_trades s' = run_trades s"
  then have "pos_side p' = pos_side p \<and> pos_entry_idx p' = pos_entry_idx p \<and>
         (pos_reached_1to1 p \<longrightarrow> pos_reached_1to1 p') \<and>
         (pos_side p = ''long'' \<longrightarrow> pos_sl p \<le> pos_sl p') \<and>
         (pos_side p \<noteq> ''long'' \<longrightarrow> pos_sl p' \<le> pos_sl p)"
    using run_loop_position_monotone [of config use_trailing frame bars s s' p p'] by blast
  then show "pos_side p' = pos_side p" "pos_entry_idx p' = pos_entry_idx p"
    "pos_reached_1to1 p \<Longrightarrow> pos_reached_1to1 p'"
    "pos_side p = ''long'' \<Longrightarrow> pos_sl p \<le> pos_sl p'"
    "pos_side p \<noteq> ''long'' \<Longrightarrow> pos_sl p' \<le> pos_sl p" by blast+
qed

theorem trailing_stop_monotone_witness:
  "1 < length [bar_flat, bar_trail] \<and>
   update_trailing_stop [bar_flat, bar_trail] 1 ''long'' 100 95 False = Inr (98, True) \<and>
   run_loop default_config True [bar_flat, bar_trail] [1]
       ((init_run_state init_strategy)\<lparr>run_position := Some pos_long\<rparr>)
     = Inr ((init_run_state init_strategy)
              \<lparr>run_position := Some (pos_long\<lparr>pos_sl := 98, pos_reached_1to1 := True\<rparr>)\<rparr>) \<and>
   pos_sl pos_long \<le> pos_sl (pos_long\<lparr>pos_sl := 98, pos_reached_1to1 := True\<rparr>)"
  using trailing_stop_monotone [of 1 "[bar_flat, bar_trail]" "''long''" 100 95 False
          default_config True "[bar_flat, bar_trail]" "[1]"
          "(init_run_state init_strategy)\<lparr>run_position := Some pos_long\<rparr>"
          "(init_run_state init_strategy)
              \<lparr>run_position := Some (pos_long\<lparr>pos_sl := 98, pos_reached_1to1 := True\<rparr>)\<rparr>"
          pos_long "pos_long\<lparr>pos_sl := 98, pos_reached_1to1 := True\<rparr>"]
  by (simp add: bar_flat_def bar_trail_def pos_long_def init_run_state_def run_step_def
      trailing_block_def update_trailing_stop_def check_exit_conditions_def
      check_macd_cross_down_def Let_def)


section \<open>The simulation run\<close>

lemma run_step_curve_ok:
  assumes "run_step config ut df i s = Inr s'" and "curve_ok s"
  shows "curve_ok s'"
proof (cases "run_position s")
  case None
  with run_step_flat [OF assms(1)] assms(2) show ?thesis by (simp add: curve_ok_def)
next
  case (Some p)
  from run_step_open [OF assms(1) Some] assms(2) show ?thesis
    by (auto simp: curve_ok_def nth_append)
qed

lemma run_loop_curve_ok:
  "run_loop config ut df bars s = Inr s' \<Longrightarrow> curve_ok s \<Longrightarrow> curve_ok s'"
proof (induction bars arbitrary: s)
  case Nil
  then show ?case by simp
next
  case (Cons i rest)
  then obtain s1 where s1: "run_step config ut df i s = Inr s1"
    and r: "run_loop config ut df rest s1 = Inr s'"
    by (auto split: sum.splits)
  from Cons.IH [OF r run_step_curve_ok [OF s1 Cons.prems(2)]] show ?case .
qed

lemma calculate_stats_fields:
  assumes "calculate_stats ts ec = Inr res"
  shows "trades res = ts \<and> num_trades res = length ts \<and>
         equity_curve res = (if ts = [] then [1] else ec)"
  using assms by (auto simp: calculate_stats_def Let_def split: if_splits sum.splits)

lemma run_one:
  "run default_config init_strategy True [bar_flat, bar_cross_up, bar_c] 1 = Inr result_one"
  by (simp add: run_def upt_rec [of 1] upt_rec [of 2] upt_rec [of 3] init_run_state_def run_step_def generate_signal_def
      check_filters_def check_long_signal_def check_macd_cross_up_def check_price_above_ema_def
      calculate_sl_tp_def trailing_block_def update_trailing_stop_def check_exit_conditions_def
      calculate_stats_def maximum_accumulate_def np_max_def
      bar_flat_def bar_cross_up_def bar_c_def default_config_def init_strategy_def
      result_one_def Let_def)


lemma run_empty: "run default_config init_strategy True [] 100 = Inr result_empty"
  by (simp add: run_def init_run_state_def calculate_stats_def result_empty_def)

text \<open>
  C2. Every completed run of \<open>BacktestEngine.run\<close> returns a result whose equity curve
  has one element more than its trade list and starts with 1.0; a run that records no
  trade returns the equity curve \<open>[1.0]\<close>.
\<close>

theorem equity_curve_length:
  assumes "run config self use_trailing df max_lookback = Inr res"
  shows "length (equity_curve res) = length (trades res) + 1 \<and> equity_curve res ! 0 = 1 \<and>
         (trades res = [] \<longrightarrow> equity_curve res = [1])"
proof -
  from assms obtain s where
    l: "run_loop config use_trailing df [max_lookback..<length df] (init_run_state self) = Inr s"
    and c: "calculate_stats (run_trades s) (run_equity_curve s) = Inr res"
    by (auto simp: run_def split: sum.splits)
  have "curve_ok (init_run_state self)" by (simp add: curve_ok_def init_run_state_def)
  from run_loop_curve_ok [OF l this] have ok: "curve_ok s" .
  from calculate_stats_fields [OF c] ok show ?thesis by (auto simp: curve_ok_def)
qed

theorem equity_curve_length_witness:
  "run default_config init_strategy True [bar_flat, bar_cross_up, bar_c] 1 = Inr result_one \<and>
   length (equity_curve result_one) = length (trades result_one) + 1 \<and>
   equity_curve result_one ! 0 = 1 \<and>
   run default_config init_strategy True [] 100 = Inr result_empty \<and>
   trades result_empty = [] \<and> equity_curve result_empty = [1]"
  using equity_curve_length [OF run_one] equity_curve_length [OF run_empty] run_one run_empty
  by (simp add: result_empty_def)


section \<open>Trades of one run do not overlap\<close>

lemma run_step_trades_ok:
  assumes st: "run_step config ut df i s = Inr s'" and ok: "trades_ok b s" and bi: "b \<le> i"
  shows "trades_ok (Suc i) s'"
proof (cases "run_position s")
  case None
  from run_step_flat [OF st None] ok bi None show ?thesis
    by (auto simp: trades_ok_def split: option.splits)
next
  case (Some p)
  from ok Some have pb: "pos_entry_idx p < b"
    and before: "\<forall>t\<in>set (run_trades s). exit_idx t < pos_entry_idx p"
    and old: "\<forall>t\<in>set (run_trades s). entry_idx t < exit_idx t \<and> exit_idx t < b"
    and chain: "sorted_wrt (\<lambda>t u. exit_idx t < entry_idx u) (run_trades s)"
    by (auto simp: trades_ok_def)
  from run_step_open [OF st Some] show ?thesis
  proof
    assume "run_position s' = None \<and>
          (\<exists>t. run_trades s' = run_trades s @ [t] \<and> entry_idx t = pos_entry_idx p \<and> exit_idx t = i) \<and>
          (\<exists>e. run_equity_curve s' = run_equity_curve s @ [e])"
    then obtain t where n: "run_position s' = None" and ts: "run_trades s' = run_trades s @ [t]"
      and te: "entry_idx t = pos_entry_idx p" and tx: "exit_idx t = i" by auto
    from pb bi te tx have "entry_idx t < exit_idx t" by simp
    with n ts te tx old before chain bi show ?thesis
      by (auto simp: trades_ok_def sorted_wrt_append)
  next
    assume "\<exists>p'. run_position s' = Some p' \<and> run_trades s' = run_trades s \<and>
               run_equity_curve s' = run_equity_curve s \<and>
               trailing_block ut df i p = Inr p'"
    then obtain p' where p': "run_position s' = Some p'" and ts: "run_trades s' = run_trades s"
      and tb: "trailing_block ut df i p = Inr p'" by auto
    from trailing_block_props [OF tb] have "pos_entry_idx p' = pos_entry_idx p" by simp
    with p' ts pb before old chain bi show ?thesis
      by (auto simp: trades_ok_def)
  qed
qed

lemma run_loop_trades_ok:
  assumes "run_loop config ut df bars s = Inr s'" and "trades_ok b s"
    and "sorted_wrt (<) bars" and "\<forall>i\<in>set bars. b \<le> i"
  shows "\<exists>b'. trades_ok b' s'"
  using assms
proof (induction bars arbitrary: s b)
  case Nil
  then show ?case by auto
next
  case (Cons i rest)
  then obtain s1 where s1: "run_step config ut df i s = Inr s1"
    and r: "run_loop config ut df rest s1 = Inr s'"
    by (auto split: sum.splits)
  from Cons.prems have bi: "b \<le> i" by simp
  from run_step_trades_ok [OF s1 Cons.prems(2) bi] have ok1: "trades_ok (Suc i) s1" .
  from Cons.prems(3) have "sorted_wrt (<) rest" and "\<forall>j\<in>set rest. Suc i \<le> j" by auto
  from Cons.IH [OF r ok1 this] show ?case .
qed


lemma run_two:
  "run default_config init_strategy True [bar_flat, bar_cross_up, bar_c, bar_cross_up, bar_c] 1
     = Inr result_two"
  by (simp add: run_def upt_rec [of 1] upt_rec [of 2] upt_rec [of 3] upt_rec [of 4]
      upt_rec [of 5] init_run_state_def run_step_def generate_signal_def
      check_filters_def check_long_signal_def check_macd_cross_up_def check_price_above_ema_def
      calculate_sl_tp_def trailing_block_def update_trailing_stop_def check_exit_conditions_def
      calculate_stats_def maximum_accumulate_def np_max_def
      bar_flat_def bar_cross_up_def bar_c_def default_config_def init_strategy_def
      result_two_def Let_def)

text \<open>
  C10. In every result returned by \<open>BacktestEngine.run\<close> each trade has its entry index
  strictly below its exit index, and the exit index of each trade is strictly below the
  entry index of the next one: the bar that opens a position is never tested for exit, the
  bar that closes one never opens another, and at most one position is open at any bar.
\<close>

theorem trades_disjoint:
  assumes "run config self use_trailing df max_lookback = Inr res"
  shows "(\<forall>t\<in>set (trades res). entry_idx t < exit_idx t) \<and>
         (\<forall>k. Suc k < length (trades res) \<longrightarrow>
            exit_idx (trades res ! k) < entry_idx (trades res ! Suc k))"
proof -
  from assms obtain s where
    l: "run_loop config use_trailing df [max_lookback..<length df] (init_run_state self) = Inr s"
    and c: "calculate_stats (run_trades s) (run_equity_curve s) = Inr res"
    by (auto simp: run_def split: sum.splits)
  have "trades_ok max_lookback (init_run_state self)"
    by (simp add: trades_ok_def init_run_state_def)
  from run_loop_trades_ok [OF l this] obtain b' where ok: "trades_ok b' s" by auto
  from calculate_stats_fields [OF c] have ts: "trades res = run_trades s" by simp
  from ok ts have a: "\<forall>t\<in>set (trades res). entry_idx t < exit_idx t"
    and ch: "sorted_wrt (\<lambda>t u. exit_idx t < entry_idx u) (trades res)"
    by (auto simp: trades_ok_def)
  from ch have "\<forall>k. Suc k < length (trades res) \<longrightarrow>
            exit_idx (trades res ! k) < entry_idx (trades res ! Suc k)"
    by (simp add: sorted_wrt_iff_nth_less)
  with a show ?thesis by blast
qed

theorem trades_disjoint_witness:
  "run default_config init_strategy True [bar_flat, bar_cross_up, bar_c, bar_cross_up, bar_c] 1
     = Inr result_two \<and>
   Suc 0 < length (trades result_two) \<and>
   entry_idx (trades result_two ! 0) < exit_idx (trades result_two ! 0) \<and>
   exit_idx (trades result_two ! 0) < entry_idx (trades result_two ! Suc 0) \<and>
   entry_idx (trades result_two ! Suc 0) < exit_idx (trades result_two ! Suc 0)"
  using trades_disjoint [OF run_two] run_two by (simp add: result_two_def)


section \<open>Risk and reward of a generated signal\<close>

lemma detect_drop: "detect_qml_bull (frame_sweep bar_drop) 7 1 20 = Inr (Some 90)"
  by (simp add: detect_qml_bull_def argrelextrema_def boolrelextrema_def take_clip_def
      frame_sweep_def bar_low_def bar_drop_def upt_rec [of 0] upt_rec [of 1] upt_rec [of 2]
      upt_rec [of 3] upt_rec [of 4] upt_rec [of 5] upt_rec [of 6] upt_rec [of 7] upt_rec [of 8]
      Let_def)

lemma calculate_sl_tp_long:
  assumes "calculate_sl_tp config self entry ''long'' a = (sl, tp)"
    and "0 \<le> a * atr_sl_mult config" and "0 \<le> rr_ratio config"
    and "use_qml_extreme_sl config \<longrightarrow>
           (\<forall>l. last_qml_bull self = Some l \<longrightarrow> l - a * atr_sl_mult config \<le> entry)"
  shows "sl \<le> entry \<and> entry \<le> tp"
proof -
  from assms(1,2,4) have sl: "sl \<le> entry"
    by (auto simp: calculate_sl_tp_def Let_def split: if_splits)
  from assms(1) have "tp = entry + (entry - sl) * rr_ratio config"
    by (auto simp: calculate_sl_tp_def Let_def split: if_splits)
  moreover from sl assms(3) have "0 \<le> (entry - sl) * rr_ratio config" by simp
  ultimately show ?thesis using sl by simp
qed

lemma calculate_sl_tp_short:
  assumes "calculate_sl_tp config self entry ''short'' a = (sl, tp)"
    and "0 \<le> a * atr_sl_mult config" and "0 \<le> rr_ratio config"
    and "use_qml_extreme_sl config \<longrightarrow>
           (\<forall>l. last_qml_bear self = Some l \<longrightarrow> entry \<le> l + a * atr_sl_mult config)"
  shows "entry \<le> sl \<and> tp \<le> entry"
proof -
  from assms(1,2,4) have sl: "entry \<le> sl"
    by (auto simp: calculate_sl_tp_def Let_def split: if_splits)
  from assms(1) have "tp = entry - (sl - entry) * rr_ratio config"
    by (auto simp: calculate_sl_tp_def Let_def split: if_splits)
  moreover from sl assms(3) have "0 \<le> (sl - entry) * rr_ratio config" by simp
  ultimately show ?thesis using sl by simp
qed

lemma generate_signal_shape:
  assumes "generate_signal config self df idx current_price = Inr (Some sg, self')"
  shows "\<exists>sl tp. quantity sg = None \<and> stop_loss sg = sl \<and> take_profit sg = tp \<and>
           (side sg = ''long'' \<or> side sg = ''short'') \<and>
           calculate_sl_tp config self' (entry_price sg) (side sg) (atr (df ! idx)) = (sl, tp)"
  using assms
  by (auto simp: generate_signal_def Let_def
      split: sum.splits if_splits prod.splits option.splits)

lemma detect_rise: "detect_qml_bull (frame_sweep bar_rise) 7 1 20 = Inr (Some 90)"
  by (simp add: detect_qml_bull_def argrelextrema_def boolrelextrema_def take_clip_def
      frame_sweep_def bar_low_def bar_rise_def upt_rec [of 0] upt_rec [of 1] upt_rec [of 2]
      upt_rec [of 3] upt_rec [of 4] upt_rec [of 5] upt_rec [of 6] upt_rec [of 7] upt_rec [of 8]
      Let_def)

lemma generate_rise:
  "generate_signal config_qml init_strategy (frame_sweep bar_rise) 7 None
     = Inr (Some signal_rise, init_strategy\<lparr>last_qml_bull := Some 90\<rparr>)"
  using detect_rise
  by (simp add: generate_signal_def check_filters_def check_long_signal_def
      check_macd_cross_up_def check_price_above_ema_def calculate_sl_tp_def
      config_qml_def default_config_def init_strategy_def frame_sweep_def bar_low_def
      bar_rise_def signal_rise_def Let_def)

text \<open>
  C4, as stated, fails: in extreme-stop mode the stop is the remembered sweep low minus
  the ATR offset, whatever the entry price is. On the frame below the close of the entry
  bar (60) lies under that stop (90 - 15 = 75), so the long signal has risk -15 and
  reward -30.
\<close>

theorem risk_negative_counterexample:
  "generate_signal config_qml init_strategy (frame_sweep bar_drop) 7 None
     = Inr (Some signal_drop, init_strategy\<lparr>last_qml_bull := Some 90\<rparr>) \<and>
   risk signal_drop < 0 \<and> reward signal_drop < 0"
  using detect_drop
  by (simp add: generate_signal_def check_filters_def check_long_signal_def
      check_macd_cross_up_def check_price_above_ema_def calculate_sl_tp_def
      config_qml_def default_config_def init_strategy_def frame_sweep_def bar_low_def
      bar_drop_def signal_drop_def risk_def reward_def Let_def)


text \<open>
  C4, amended. A signal produced by \<open>generate_signal\<close> has non-negative risk and
  reward whenever the ATR offset (ATR times \<open>atr_sl_mult\<close>) and \<open>rr_ratio\<close> are
  non-negative and, in extreme-stop mode with a remembered level, the stop placed from
  that level does not lie beyond the entry price: sweep low minus offset at most the
  entry for a long signal, sweep high plus offset at least the entry for a short one.
  With extreme-stop mode disabled, or no remembered level, the two sign conditions
  suffice.
\<close>

theorem risk_reward_nonneg:
  assumes "generate_signal config self df idx current_price = Inr (Some sg, self')"
    and "0 \<le> atr (df ! idx) * atr_sl_mult config" and "0 \<le> rr_ratio config"
    and "use_qml_extreme_sl config \<longrightarrow>
           (side sg = ''long'' \<longrightarrow>
              (\<forall>l. last_qml_bull self' = Some l \<longrightarrow>
                 l - atr (df ! idx) * atr_sl_mult config \<le> entry_price sg)) \<and>
           (side sg \<noteq> ''long'' \<longrightarrow>
              (\<forall>l. last_qml_bear self' = Some l \<longrightarrow>
                 entry_price sg \<le> l + atr (df ! idx) * atr_sl_mult config))"
  shows "0 \<le> risk sg \<and> 0 \<le> reward sg"
proof -
  from generate_signal_shape [OF assms(1)] obtain sl tp where
    f: "stop_loss sg = sl" "take_profit sg = tp"
    and sd: "side sg = ''long'' \<or> side sg = ''short''"
    and c: "calculate_sl_tp config self' (entry_price sg) (side sg) (atr (df ! idx)) = (sl, tp)"
    by blast
  from sd show ?thesis
  proof
    assume l: "side sg = ''long''"
    with c assms(2-4) calculate_sl_tp_long [of config self' "entry_price sg" "atr (df ! idx)" sl tp]
    have "sl \<le> entry_price sg \<and> entry_price sg \<le> tp" by simp
    with f l show ?thesis by (simp add: risk_def reward_def)
  next
    assume s: "side sg = ''short''"
    with c assms(2-4) calculate_sl_tp_short [of config self' "entry_price sg" "atr (df ! idx)" sl tp]
    have "entry_price sg \<le> sl \<and> tp \<le> entry_price sg" by simp
    with f s show ?thesis by (simp add: risk_def reward_def)
  qed
qed

theorem risk_reward_nonneg_witness:
  "generate_signal config_qml init_strategy (frame_sweep bar_rise) 7 None
     = Inr (Some signal_rise, init_strategy\<lparr>last_qml_bull := Some 90\<rparr>) \<and>
   0 \<le> atr (frame_sweep bar_rise ! 7) * atr_sl_mult config_qml \<and> 0 \<le> rr_ratio config_qml \<and>
   use_qml_extreme_sl config_qml \<and> side signal_rise = ''long'' \<and>
   90 - atr (frame_sweep bar_rise ! 7) * atr_sl_mult config_qml \<le> entry_price signal_rise \<and>
   0 \<le> risk signal_rise \<and> 0 \<le> reward signal_rise"
  using risk_reward_nonneg [OF generate_rise] generate_rise
  by (simp add: config_qml_def default_config_def frame_sweep_def bar_rise_def signal_rise_def
      init_strategy_def)


section \<open>Pattern detection\<close>

lemma take_clip_up:
  "i < length ps \<Longrightarrow> take_clip ps (int i + int s) = ps ! min (i + s) (length ps - 1)"
  by (auto simp: take_clip_def min_def nat_add_distrib)

lemma take_clip_down:
  "i < length ps \<Longrightarrow> take_clip ps (int i - int s) = ps ! (i - s)"
  by (auto simp: take_clip_def nat_diff_distrib')

lemma boolrelextrema_iff:
  assumes i: "i < length ps" and o: "1 \<le> order" and irr: "\<And>x. \<not> comparator x x"
  shows "boolrelextrema ps comparator order i \<longleftrightarrow>
           0 < i \<and> Suc i < length ps \<and> local_extremum comparator ps order i"
proof
  assume b: "boolrelextrema ps comparator order i"
  then have all: "\<And>s. 1 \<le> s \<Longrightarrow> s \<le> order \<Longrightarrow>
      comparator (ps ! i) (ps ! min (i + s) (length ps - 1)) \<and>
      comparator (ps ! i) (ps ! (i - s))"
    using i by (auto simp: boolrelextrema_def list_all_iff take_clip_up take_clip_down)
  have pos: "0 < i"
  proof (rule ccontr)
    assume "\<not> 0 < i"
    then have "i = 0" by simp
    with all [of 1] o irr show False by simp
  qed
  have interior: "Suc i < length ps"
  proof (rule ccontr)
    assume "\<not> Suc i < length ps"
    with i have e: "min (i + 1) (length ps - 1) = i" by (auto simp: min_def)
    from all [of 1] o have "comparator (ps ! i) (ps ! min (i + 1) (length ps - 1))" by blast
    then have "comparator (ps ! i) (ps ! i)" unfolding e .
    with irr show False by blast
  qed
  have "local_extremum comparator ps order i"
    unfolding local_extremum_def list_all_iff
  proof (intro ballI impI)
    fix j assume j: "j \<in> set [0..<length ps]" and h: "j \<noteq> i \<and> j \<le> i + order \<and> i \<le> j + order"
    show "comparator (ps ! i) (ps ! j)"
    proof (cases "i < j")
      case True
      with j h have "1 \<le> j - i" "j - i \<le> order" "min (i + (j - i)) (length ps - 1) = j"
        by (auto simp: min_def)
      with all [of "j - i"] show ?thesis by simp
    next
      case False
      with h have "1 \<le> i - j" "i - j \<le> order" "i - (i - j) = j" by auto
      with all [of "i - j"] show ?thesis by simp
    qed
  qed
  with pos interior show "0 < i \<and> Suc i < length ps \<and> local_extremum comparator ps order i"
    by simp
next
  assume r: "0 < i \<and> Suc i < length ps \<and> local_extremum comparator ps order i"
  then have le: "\<And>j. j < length ps \<Longrightarrow> j \<noteq> i \<Longrightarrow> j \<le> i + order \<Longrightarrow> i \<le> j + order \<Longrightarrow>
      comparator (ps ! i) (ps ! j)"
    by (auto simp: local_extremum_def list_all_iff)
  show "boolrelextrema ps comparator order i"
    unfolding boolrelextrema_def list_all_iff
  proof (intro ballI conjI)
    fix s assume "s \<in> set [1..<Suc order]"
    then have s: "1 \<le> s" "s \<le> order" by auto
    from r s have "min (i + s) (length ps - 1) < length ps"
      "min (i + s) (length ps - 1) \<noteq> i" "min (i + s) (length ps - 1) \<le> i + order"
      "i \<le> min (i + s) (length ps - 1) + order"
      by (auto simp: min_def)
    from le [OF this] i show "comparator (ps ! i) (take_clip ps (int i + int s))"
      by (simp add: take_clip_up)
    from r s i have "i - s < length ps" "i - s \<noteq> i" "i - s \<le> i + order" "i \<le> i - s + order"
      by auto
    from le [OF this] i show "comparator (ps ! i) (take_clip ps (int i - int s))"
      by (simp add: take_clip_down)
  qed
qed

lemma argrelextrema_interior:
  assumes "1 \<le> order" and "\<And>x. \<not> comparator x x"
  shows "argrelextrema ps comparator order = Inr (interior_extrema comparator ps (nat order))"
proof -
  from assms(1) have o: "1 \<le> nat order" by simp
  have "filter (boolrelextrema ps comparator (nat order)) [0..<length ps] =
        interior_extrema comparator ps (nat order)"
    unfolding interior_extrema_def
    by (rule filter_cong) (auto simp: boolrelextrema_iff [OF _ o assms(2)])
  with assms(1) show ?thesis by (simp add: argrelextrema_def)
qed

text \<open>
  C8, as stated, fails at the two ends of the prefix. \<open>argrelextrema\<close> compares an end
  point with itself (an index beyond the array is clipped to the end), so the first point
  and the evaluation bar itself are never extrema, although each may be strictly lower
  than every point that lies within \<open>order\<close> positions of it. On both frames below the
  rule in the specification's words finds three minima and the sweep level 1, the code
  finds two minima and returns \<open>None\<close>.
\<close>

theorem endpoint_minimum_counterexample:
  "detect_qml_bull frame_fresh_low 5 1 20 = Inr None \<and>
   spec_detect_qml_bull frame_fresh_low 5 1 20 = Some 1 \<and>
   detect_qml_bull frame_first_low 5 1 20 = Inr None \<and>
   spec_detect_qml_bull frame_first_low 5 1 20 = Some 1"
  by (simp add: detect_qml_bull_def spec_detect_qml_bull_def argrelextrema_def
      boolrelextrema_def take_clip_def spec_extrema_def local_extremum_def three_point_rule_def
      frame_fresh_low_def frame_first_low_def bar_low_def
      upt_rec [of 0] upt_rec [of 1] upt_rec [of 2]
      upt_rec [of 3] upt_rec [of 4] upt_rec [of 5] upt_rec [of 6] Let_def)

text \<open>
  C8, amended. For \<open>order\<close> at least 1, \<open>detect_qml_bull\<close> works on the lows up to and
  including \<open>idx\<close>; a point is a local minimum iff it is neither the first nor the last
  point of that prefix and is strictly lower than every other point of the prefix within
  \<open>order\<close> positions of it (near an end, only the points that exist); with fewer than
  three local minima it returns \<open>None\<close>; otherwise, with \<open>e1\<close>, \<open>e2\<close>, \<open>e3\<close> the
  three most recent ones, it returns \<open>e2\<close>'s price exactly when \<open>e2 < e1\<close>, \<open>e3 > e2\<close>
  and \<open>idx\<close> minus \<open>e3\<close>'s index is below \<open>recency\<close>. \<open>detect_qml_bear\<close> is the
  mirror image over the highs. For \<open>order\<close> below 1 both raise \<open>ValueError\<close>.
\<close>

theorem qml_detection:
  "(1 \<le> order \<longrightarrow>
      detect_qml_bull df idx order recency =
        Inr (three_point_rule (<) (take (idx + 1) (map low df))
               (interior_extrema (<) (take (idx + 1) (map low df)) (nat order)) idx recency) \<and>
      detect_qml_bear df idx order recency =
        Inr (three_point_rule (>) (take (idx + 1) (map high df))
               (interior_extrema (>) (take (idx + 1) (map high df)) (nat order)) idx recency)) \<and>
   (order < 1 \<longrightarrow>
      detect_qml_bull df idx order recency = Inl ValueError \<and>
      detect_qml_bear df idx order recency = Inl ValueError)"
proof (intro conjI impI)
  assume o: "1 \<le> order"
  have lt: "\<And>x::real. \<not> x < x" and gt: "\<And>x::real. \<not> x > x" by simp_all
  show "detect_qml_bull df idx order recency =
        Inr (three_point_rule (<) (take (idx + 1) (map low df))
               (interior_extrema (<) (take (idx + 1) (map low df)) (nat order)) idx recency)"
    by (simp add: detect_qml_bull_def argrelextrema_interior [OF o lt] three_point_rule_def
        Let_def)
  show "detect_qml_bear df idx order recency =
        Inr (three_point_rule (>) (take (idx + 1) (map high df))
               (interior_extrema (>) (take (idx + 1) (map high df)) (nat order)) idx recency)"
    by (simp add: detect_qml_bear_def argrelextrema_interior [OF o gt] three_point_rule_def
        Let_def)
next
  assume "order < 1"
  then show "detect_qml_bull df idx order recency = Inl ValueError"
    "detect_qml_bear df idx order recency = Inl ValueError"
    by (simp_all add: detect_qml_bull_def detect_qml_bear_def argrelextrema_def)
qed

theorem qml_detection_witness:
  "(1::int) \<le> 1 \<and>
   detect_qml_bull (frame_sweep bar_drop) 7 1 20 = Inr (Some 90) \<and>
   three_point_rule (<) (take (7 + 1) (map low (frame_sweep bar_drop)))
     (interior_extrema (<) (take (7 + 1) (map low (frame_sweep bar_drop))) (nat 1)) 7 20
     = Some 90 \<and>
   (0::int) < 1 \<and> detect_qml_bull (frame_sweep bar_drop) 7 0 20 = Inl ValueError"
  using qml_detection [of 1 "frame_sweep bar_drop" 7 20]
        qml_detection [of 0 "frame_sweep bar_drop" 7 20] detect_drop
  by simp


section \<open>Grid search\<close>

text \<open>With positive closes every full window has a positive mid band and every trade is
  entered at a positive price, so that neither the band width nor a PNL divides by zero.\<close>

lemma sum_list_positive:
  fixes ys :: "real list"
  assumes "ys \<noteq> []" and "\<forall>y\<in>set ys. 0 < y"
  shows "0 < sum_list ys"
  using assms
proof (induction ys)
  case Nil
  then show ?case by simp
next
  case (Cons y ys)
  then have "0 < y" by simp
  moreover from Cons.prems have "0 \<le> sum_list ys"
    by (intro sum_list_nonneg) (simp add: less_imp_le)
  ultimately show ?case by simp
qed

lemma rolling_mean_positive:
  assumes "\<forall>x\<in>set xs. 0 < x" and "0 < period" and "period \<le> i + 1" and "i < length xs"
  shows "0 < rolling_mean period xs i"
proof -
  let ?w = "rolling_window period xs i"
  from assms(2-4) have "?w \<noteq> []" by (simp add: rolling_window_def)
  moreover have "\<forall>y\<in>set ?w. 0 < y"
  proof
    fix y assume "y \<in> set ?w"
    then have "y \<in> set xs" unfolding rolling_window_def by (auto dest: in_set_takeD in_set_dropD)
    with assms(1) show "0 < y" by simp
  qed
  ultimately have "0 < sum_list ?w" by (rule sum_list_positive)
  with assms(2,3) show ?thesis by (simp add: rolling_mean_def)
qed

lemma generate_signal_entry:
  assumes "generate_signal config self df i None = Inr (Some sg, self')"
  shows "i < length df \<and> entry_price sg = close (df ! i)"
  using assms
  by (auto simp: generate_signal_def check_filters_def Let_def
      split: sum.splits if_splits prod.splits)

lemma run_step_entries_positive:
  assumes st: "run_step config ut df i s = Inr s'" and ok: "entries_positive s"
    and pos: "\<forall>r\<in>set df. 0 < close r"
  shows "entries_positive s'"
proof (cases "run_position s")
  case None
  show ?thesis
  proof (cases "run_position s'")
    case None
    with run_step_flat [OF st \<open>run_position s = None\<close>] ok show ?thesis
      by (simp add: entries_positive_def)
  next
    case (Some p)
    from st \<open>run_position s = None\<close> Some obtain sg self' where
      g: "generate_signal config (run_strategy s) df i None = Inr (Some sg, self')"
      and p: "pos_entry_price p = entry_price sg"
      by (auto simp: run_step_def split: sum.splits option.splits prod.splits)
    from generate_signal_entry [OF g] pos p have "0 < pos_entry_price p" by simp
    with run_step_flat [OF st \<open>run_position s = None\<close>] ok Some show ?thesis
      by (simp add: entries_positive_def)
  qed
next
  case (Some p)
  with ok have pp: "0 < pos_entry_price p" and ts: "\<forall>t\<in>set (run_trades s). 0 < trade_entry_price t"
    by (auto simp: entries_positive_def)
  from st Some pp ts show ?thesis
    by (auto simp: run_step_def entries_positive_def Let_def
        dest!: trailing_block_props
        split: sum.splits option.splits prod.splits if_splits)
qed

lemma run_loop_entries_positive:
  "run_loop config ut df bars s = Inr s' \<Longrightarrow> entries_positive s \<Longrightarrow>
   \<forall>r\<in>set df. 0 < close r \<Longrightarrow> entries_positive s'"
proof (induction bars arbitrary: s)
  case Nil
  then show ?case by simp
next
  case (Cons i rest)
  then obtain s1 where s1: "run_step config ut df i s = Inr s1"
    and r: "run_loop config ut df rest s1 = Inr s'"
    by (auto split: sum.splits)
  from Cons.IH [OF r run_step_entries_positive [OF s1 Cons.prems(2,3)] Cons.prems(3)]
  show ?case .
qed

lemma calculate_indicators_close:
  assumes "calculate_indicators raw e f sl sg bp bs ap vp = Inr df"
  shows "map close df = map bar_close raw"
proof -
  from assms have "length df = length raw"
    and "\<forall>i<length raw. close (df ! i) = bar_close (raw ! i)"
    by (auto simp: calculate_indicators_def Let_def split: if_splits)
  then show ?thesis by (auto intro!: nth_equalityI)
qed

lemma positive_entry_prices:
  assumes "calculate_indicators raw e f sl sg bp bs ap vp = Inr df"
    and "\<forall>b\<in>set raw. 0 < bar_close b"
    and "run config self use_trailing df max_lookback = Inr res"
  shows "\<forall>t\<in>set (trades res). 0 < trade_entry_price t"
proof -
  have pos: "\<forall>r\<in>set df. 0 < close r"
  proof
    fix r assume "r \<in> set df"
    then have "close r \<in> set (map close df)" by simp
    with calculate_indicators_close [OF assms(1)] have "close r \<in> set (map bar_close raw)"
      by simp
    with assms(2) show "0 < close r" by auto
  qed
  from assms(3) obtain s where
    l: "run_loop config use_trailing df [max_lookback..<length df] (init_run_state self) = Inr s"
    and c: "calculate_stats (run_trades s) (run_equity_curve s) = Inr res"
    by (auto simp: run_def split: sum.splits)
  have "entries_positive (init_run_state self)"
    by (simp add: entries_positive_def init_run_state_def)
  from run_loop_entries_positive [OF l this pos] calculate_stats_fields [OF c]
  show ?thesis by (simp add: entries_positive_def)
qed

































end
